theory Spec2Isabelle
  imports Main
begin

section \<open>Data model\<close>

text \<open>
  The repository holds two versions of one React component, a list whose entries are
  reordered by dragging: the full example (427 lines, called "the full controller" below)
  and the reduced \<^verbatim>\<open>src/example.tsx\<close> (254 lines, "the reduced example"), which the
  entry point renders. Both share the registry, \<^verbatim>\<open>reorderItem\<close> and the drop handler;
  they differ in the move record and in the \<^verbatim>\<open>onDrag\<close> callback of an entry.

  JavaScript numbers that hold indices are modelled as \<open>int\<close>, a \<^verbatim>\<open>Symbol\<close> and an
  \<^verbatim>\<open>HTMLElement\<close> as opaque identities, \<^verbatim>\<open>null\<close> and \<^verbatim>\<open>undefined\<close> as \<open>None\<close>.
\<close>

type_synonym symbol = nat

type_synonym HTMLElement = nat

text \<open>\<^verbatim>\<open>type Item = { id: string; label: string }\<close>\<close>

record Item =
  item_id :: string
  label :: string

text \<open>
  The closest edge of a drop target. Every drop target is created with
  \<^verbatim>\<open>allowedEdges: ['top', 'bottom']\<close>, and \<^verbatim>\<open>reorderItem\<close> always passes
  \<^verbatim>\<open>axis: 'vertical'\<close>; on that axis top is "before" and bottom is "after".
\<close>

datatype Edge = Top | Bottom

datatype Axis = Vertical | Horizontal

text \<open>\<^verbatim>\<open>type ItemData = { item: Item; index: number; instanceId: symbol }\<close>\<close>

record ItemData =
  item :: Item
  index :: int
  instanceId :: symbol

text \<open>
  The data of a drag source or drop target is a \<^verbatim>\<open>Record<string | symbol, unknown>\<close>.
  \<open>ItemPayload d e\<close> is a record that passes the shape check \<^verbatim>\<open>isItemData\<close> (in the full
  controller it carries the module-private key \<^verbatim>\<open>itemKey\<close>, in the reduced example its
  fields \<^verbatim>\<open>item\<close>, \<^verbatim>\<open>index\<close> and \<^verbatim>\<open>instanceId\<close> are defined), together with the edge
  that \<^verbatim>\<open>attachClosestEdge\<close> stored in it, if any; \<open>OtherPayload i\<close> is any record
  that fails the check, with its field \<^verbatim>\<open>index\<close> when that is a number (the one field
  the component reads from data it has not checked). The type guard's assertion about the
  field types is taken as given.
\<close>

datatype DragData = ItemPayload ItemData "Edge option" | OtherPayload "int option"

datatype error = InvalidIndex | InvariantViolation

text \<open>The entry of the registry: \<^verbatim>\<open>type ItemEntry = { itemId: string; element: HTMLElement }\<close>\<close>

record ItemEntry =
  itemId :: string
  element :: HTMLElement

type_synonym registry = "string \<rightharpoonup> HTMLElement"

text \<open>
  \<^verbatim>\<open>type ListState\<close> of the full controller. The field \<open>moved_item\<close> is optional because
  the updater reads \<^verbatim>\<open>listState.items[startIndex]\<close> unguarded: out of range the read
  gives \<^verbatim>\<open>undefined\<close>.
\<close>

record LastCardMoved =
  moved_item :: "Item option"
  previousIndex :: int
  currentIndex :: int
  numberOfItems :: int

record ListState =
  items :: "Item list"
  lastCardMoved :: "LastCardMoved option"

text \<open>\<^verbatim>\<open>type ListState\<close> of the reduced example: the move record holds the item only.\<close>

record LastMoved =
  lm_item :: "Item option"

record ListState_example =
  ex_items :: "Item list"
  lastMoved :: "LastMoved option"

text \<open>
  The two imported helpers, as the component calls them:
  \<^verbatim>\<open>getReorderDestinationIndex({startIndex, closestEdgeOfTarget, indexOfTarget, axis})\<close> and
  \<^verbatim>\<open>reorder({list, startIndex, finishIndex})\<close>. Their sources are not part of the
  repository, so the component's functions take them as parameters.
\<close>

type_synonym destination_fn = "int \<Rightarrow> Edge option \<Rightarrow> int \<Rightarrow> Axis \<Rightarrow> int"

type_synonym 'a reorder_fn = "'a list \<Rightarrow> int \<Rightarrow> int \<Rightarrow> error + 'a list"

section \<open>JavaScript array primitives\<close>

text \<open>\<^verbatim>\<open>xs[i]\<close>: \<^verbatim>\<open>undefined\<close> outside the array.\<close>

definition js_index :: "'a list \<Rightarrow> int \<Rightarrow> 'a option" where
  "js_index xs i = (if 0 \<le> i \<and> i < int (length xs) then Some (xs ! nat i) else None)"

text \<open>\<^verbatim>\<open>Array.prototype.findIndex\<close>: the first index whose element satisfies the
  predicate, \<open>-1\<close> when there is none.\<close>

fun findIndex_from :: "('a \<Rightarrow> bool) \<Rightarrow> 'a list \<Rightarrow> int \<Rightarrow> int" where
  "findIndex_from p [] i = - 1"
| "findIndex_from p (x # xs) i = (if p x then i else findIndex_from p xs (i + 1))"

definition findIndex :: "('a \<Rightarrow> bool) \<Rightarrow> 'a list \<Rightarrow> int" where
  "findIndex p xs = findIndex_from p xs 0"

section \<open>Payload checks\<close>

text \<open>\<^verbatim>\<open>isItemData(data)\<close>, and the narrowing it gives to its caller.\<close>

fun isItemData :: "DragData \<Rightarrow> bool" where
  "isItemData (ItemPayload d e) = True"
| "isItemData (OtherPayload i) = False"

fun asItemData :: "DragData \<Rightarrow> ItemData option" where
  "asItemData (ItemPayload d e) = Some d"
| "asItemData (OtherPayload i) = None"

text \<open>\<^verbatim>\<open>data.index\<close> when \<^verbatim>\<open>typeof data.index === 'number'\<close>, read without the
  shape check.\<close>

fun dataIndex :: "DragData \<Rightarrow> int option" where
  "dataIndex (ItemPayload d e) = Some (index d)"
| "dataIndex (OtherPayload i) = i"

text \<open>
  Modelled from the spec: \<^verbatim>\<open>extractClosestEdge\<close> is imported from the package
  \<^verbatim>\<open>@atlaskit/pragmatic-drag-and-drop-hitbox\<close>, whose source is not in the repository.
  The collaborator "reports candidate drop targets and the closest edge": the function
  reads the edge that \<^verbatim>\<open>attachClosestEdge\<close> stored in the drop target's data,
  \<^verbatim>\<open>null\<close> when there is none.
\<close>

fun extractClosestEdge :: "DragData \<Rightarrow> Edge option" where
  "extractClosestEdge (ItemPayload d e) = e"
| "extractClosestEdge (OtherPayload i) = None"

text \<open>\<^verbatim>\<open>canDrop({ source })\<close> of an entry's drop target and \<^verbatim>\<open>canMonitor({ source })\<close>
  of the list's monitor have the same body:
  \<^verbatim>\<open>isItemData(source.data) && source.data.instanceId === instanceId\<close>.\<close>

definition canDrop :: "symbol \<Rightarrow> DragData \<Rightarrow> bool" where
  "canDrop instId sourceData =
     (case asItemData sourceData of None \<Rightarrow> False | Some d \<Rightarrow> instanceId d = instId)"

definition canMonitor :: "symbol \<Rightarrow> DragData \<Rightarrow> bool" where
  "canMonitor instId sourceData =
     (case asItemData sourceData of None \<Rightarrow> False | Some d \<Rightarrow> instanceId d = instId)"

section \<open>Item registry\<close>

text \<open>
  \<^verbatim>\<open>getItemRegistry()\<close> creates an empty \<^verbatim>\<open>Map\<close>. \<^verbatim>\<open>register\<close> stores the element under
  the item's id and returns the closure \<^verbatim>\<open>unregister\<close>, which deletes the key it captured.
  The map is passed explicitly; the closure is a function from registry to registry.
\<close>

definition getItemRegistry :: registry where
  "getItemRegistry = Map.empty"

definition unregister :: "string \<Rightarrow> registry \<Rightarrow> registry" where
  "unregister capturedId reg = reg(capturedId := None)"

definition register :: "ItemEntry \<Rightarrow> registry \<Rightarrow> registry \<times> (registry \<Rightarrow> registry)" where
  "register entry reg = (reg(itemId entry \<mapsto> element entry), unregister (itemId entry))"

definition getElement :: "string \<Rightarrow> registry \<Rightarrow> HTMLElement option" where
  "getElement anId reg = reg anId"

section \<open>Imported helpers, from their description\<close>

text \<open>
  Modelled from the spec: \<^verbatim>\<open>getReorderDestinationIndex\<close> is imported from the package
  \<^verbatim>\<open>@atlaskit/pragmatic-drag-and-drop-hitbox\<close>, whose source is not in the repository.
  This is the precise rule of the Reorder Calculator (\<^verbatim>\<open>computeDestination\<close>):
  "let base = targetIndex + (edge == after ? 1 : 0). If sourceIndex < base,
  destination = base - 1; else destination = base", for the two edges a drop target
  reports on the vertical axis. A null edge is left out: the description calls its
  treatment an open question.
\<close>

definition getReorderDestinationIndex :: "int \<Rightarrow> Edge \<Rightarrow> int \<Rightarrow> int" where
  "getReorderDestinationIndex startIndex closestEdgeOfTarget indexOfTarget =
     (let base = indexOfTarget + (if closestEdgeOfTarget = Bottom then 1 else 0)
      in if startIndex < base then base - 1 else base)"

text \<open>Removing the element at a position, and inserting an element at a position.\<close>

definition removeAt :: "nat \<Rightarrow> 'a list \<Rightarrow> 'a list" where
  "removeAt i xs = take i xs @ drop (Suc i) xs"

definition insertAt :: "nat \<Rightarrow> 'a \<Rightarrow> 'a list \<Rightarrow> 'a list" where
  "insertAt i x xs = take i xs @ x # drop i xs"

text \<open>
  Modelled from the spec: \<^verbatim>\<open>reorder\<close> is imported from the package
  \<^verbatim>\<open>@atlaskit/pragmatic-drag-and-drop\<close>, whose source is not in the repository.
  This is the list part of the List State Store's contract: with
  \<open>0 \<le> sourceIndex < length\<close>, \<open>0 \<le> destinationIndex < length\<close> and
  \<open>sourceIndex \<noteq> destinationIndex\<close> it "removes the item at sourceIndex and reinserts it at
  destinationIndex in the resulting sequence"; "if preconditions are violated the
  operation signals an InvalidIndex condition".
\<close>

definition reorder :: "'a list \<Rightarrow> int \<Rightarrow> int \<Rightarrow> error + 'a list" where
  "reorder xs startIndex finishIndex =
     (if 0 \<le> startIndex \<and> startIndex < int (length xs) \<and>
         0 \<le> finishIndex \<and> finishIndex < int (length xs) \<and> startIndex \<noteq> finishIndex
      then Inr (insertAt (nat finishIndex) (xs ! nat startIndex) (removeAt (nat startIndex) xs))
      else Inl InvalidIndex)"

section \<open>List state: \<^verbatim>\<open>reorderItem\<close>\<close>

text \<open>
  The function passed to \<^verbatim>\<open>setListState\<close> in the full controller: it reads the item at
  \<^verbatim>\<open>startIndex\<close>, calls \<^verbatim>\<open>reorder\<close>, and returns the new list and the move record as one
  new state. An exception of \<^verbatim>\<open>reorder\<close> leaves the updater.
\<close>

definition reorderUpdate ::
  "Item reorder_fn \<Rightarrow> int \<Rightarrow> int \<Rightarrow> ListState \<Rightarrow> error + ListState" where
  "reorderUpdate reord startIndex finishIndex listState =
     (let movedItem = js_index (items listState) startIndex
      in case reord (items listState) startIndex finishIndex of
           Inl e \<Rightarrow> Inl e
         | Inr newItems \<Rightarrow>
             Inr \<lparr>items = newItems,
                  lastCardMoved = Some \<lparr>moved_item = movedItem,
                                        previousIndex = startIndex,
                                        currentIndex = finishIndex,
                                        numberOfItems = int (length (items listState))\<rparr>\<rparr>)"

text \<open>The same function in the reduced example: \<^verbatim>\<open>lastMoved: { item }\<close>.\<close>

definition reorderUpdate_example ::
  "Item reorder_fn \<Rightarrow> int \<Rightarrow> int \<Rightarrow> ListState_example \<Rightarrow> error + ListState_example" where
  "reorderUpdate_example reord startIndex finishIndex listState =
     (let movedItem = js_index (ex_items listState) startIndex
      in case reord (ex_items listState) startIndex finishIndex of
           Inl e \<Rightarrow> Inl e
         | Inr newItems \<Rightarrow>
             Inr \<lparr>ex_items = newItems, lastMoved = Some \<lparr>lm_item = movedItem\<rparr>\<rparr>)"

text \<open>
  \<^verbatim>\<open>reorderItem({ startIndex, indexOfTarget, closestEdgeOfTarget })\<close>. It either returns
  without touching the state (\<open>None\<close>: "If there would be no change, we skip the update")
  or calls \<^verbatim>\<open>setListState\<close> with an updater (\<open>Some\<close> of it).
\<close>

definition reorderItem ::
  "destination_fn \<Rightarrow> Item reorder_fn \<Rightarrow> int \<Rightarrow> int \<Rightarrow> Edge option \<Rightarrow>
     (ListState \<Rightarrow> error + ListState) option" where
  "reorderItem destinationIndex reord startIndex indexOfTarget closestEdgeOfTarget =
     (let finishIndex = destinationIndex startIndex closestEdgeOfTarget indexOfTarget Vertical
      in if finishIndex = startIndex then None
         else Some (reorderUpdate reord startIndex finishIndex))"

definition reorderItem_example ::
  "destination_fn \<Rightarrow> Item reorder_fn \<Rightarrow> int \<Rightarrow> int \<Rightarrow> Edge option \<Rightarrow>
     (ListState_example \<Rightarrow> error + ListState_example) option" where
  "reorderItem_example destinationIndex reord startIndex indexOfTarget closestEdgeOfTarget =
     (let finishIndex = destinationIndex startIndex closestEdgeOfTarget indexOfTarget Vertical
      in if finishIndex = startIndex then None
         else Some (reorderUpdate_example reord startIndex finishIndex))"

text \<open>
  What a handler leaves behind: with no call of the state setter the state stays as it
  is; otherwise the updater is applied to the current state.
\<close>

definition commit :: "('s \<Rightarrow> error + 's) option \<Rightarrow> 's \<Rightarrow> error + 's" where
  "commit pending s = (case pending of None \<Rightarrow> Inr s | Some f \<Rightarrow> f s)"

section \<open>Drop handling\<close>

text \<open>
  \<^verbatim>\<open>onDrop({ location, source })\<close> of the monitor. \<open>currentItems\<close> is the \<^verbatim>\<open>items\<close> of
  the render that installed the monitor; \<open>dropTargets\<close> are the data of
  \<^verbatim>\<open>location.current.dropTargets\<close>, innermost first.
\<close>

definition onDrop ::
  "destination_fn \<Rightarrow> Item reorder_fn \<Rightarrow> Item list \<Rightarrow> DragData list \<Rightarrow> DragData \<Rightarrow>
     (ListState \<Rightarrow> error + ListState) option" where
  "onDrop destinationIndex reord currentItems dropTargets sourceData =
     (case dropTargets of
        [] \<Rightarrow> None
      | targetData # _ \<Rightarrow>
          (case (asItemData sourceData, asItemData targetData) of
             (Some sourceItem, Some targetItem) \<Rightarrow>
               (let indexOfTarget =
                      findIndex (\<lambda>it. item_id it = item_id (item targetItem)) currentItems
                in if indexOfTarget < 0 then None
                   else reorderItem destinationIndex reord (index sourceItem) indexOfTarget
                          (extractClosestEdge targetData))
           | _ \<Rightarrow> None))"

definition onDrop_example ::
  "destination_fn \<Rightarrow> Item reorder_fn \<Rightarrow> Item list \<Rightarrow> DragData list \<Rightarrow> DragData \<Rightarrow>
     (ListState_example \<Rightarrow> error + ListState_example) option" where
  "onDrop_example destinationIndex reord currentItems dropTargets sourceData =
     (case dropTargets of
        [] \<Rightarrow> None
      | targetData # _ \<Rightarrow>
          (case (asItemData sourceData, asItemData targetData) of
             (Some sourceItem, Some targetItem) \<Rightarrow>
               (let indexOfTarget =
                      findIndex (\<lambda>it. item_id it = item_id (item targetItem)) currentItems
                in if indexOfTarget < 0 then None
                   else reorderItem_example destinationIndex reord (index sourceItem)
                          indexOfTarget (extractClosestEdge targetData))
           | _ \<Rightarrow> None))"

text \<open>
  Modelled from the spec: \<^verbatim>\<open>monitorForElements({ canMonitor, onDrop })\<close> is imported from
  the package \<^verbatim>\<open>@atlaskit/pragmatic-drag-and-drop\<close>, whose source is not in the
  repository. The instance identifier is "checked by the coordinator before accepting a
  gesture as belonging to this controller": the monitor's \<^verbatim>\<open>onDrop\<close> runs only for a
  source that its \<^verbatim>\<open>canMonitor\<close> accepted.
\<close>

definition monitorForElements ::
  "(DragData \<Rightarrow> bool) \<Rightarrow> (DragData list \<Rightarrow> DragData \<Rightarrow> 'u option) \<Rightarrow>
     DragData list \<Rightarrow> DragData \<Rightarrow> 'u option" where
  "monitorForElements canMonitorFn onDropFn dropTargets sourceData =
     (if canMonitorFn sourceData then onDropFn dropTargets sourceData else None)"

section \<open>Drop indicator of an entry\<close>

text \<open>
  \<^verbatim>\<open>onDrag({ self, source })\<close> of an entry's drop target in the full controller. The
  result is the value given to \<^verbatim>\<open>setClosestEdge\<close>; the entry renders a drop indicator
  at that edge exactly when it is not null. \<open>thisElement\<close> is the element of the drop
  target, \<open>sourceElement\<close> is \<^verbatim>\<open>source.element\<close>, the element of the draggable; both
  versions create the draggable on the entry's drag handle and the drop target on the
  entry's container, two different nodes.
  \<^verbatim>\<open>invariant(typeof sourceIndex === 'number')\<close> fails exactly when the source's data hold
  no numeric \<^verbatim>\<open>index\<close>.
\<close>

definition onDrag ::
  "int \<Rightarrow> HTMLElement \<Rightarrow> DragData \<Rightarrow> HTMLElement \<Rightarrow> DragData \<Rightarrow> error + Edge option" where
  "onDrag itemIndex thisElement selfData sourceElement sourceData =
     (if sourceElement = thisElement then Inr None
      else
        (let closestEdge = extractClosestEdge selfData
         in case dataIndex sourceData of
              None \<Rightarrow> Inl InvariantViolation
            | Some sourceIndex \<Rightarrow>
                (let isItemBeforeSource = (itemIndex = sourceIndex - 1);
                     isItemAfterSource = (itemIndex = sourceIndex + 1);
                     isDropIndicatorHidden =
                       ((isItemBeforeSource \<and> closestEdge = Some Bottom) \<or>
                        (isItemAfterSource \<and> closestEdge = Some Top))
                 in if isDropIndicatorHidden then Inr None else Inr closestEdge)))"

text \<open>The same callback in the reduced example: after the comparison of the two
  elements it passes the closest edge on; the entry's index and the source's data are in
  scope and not read. The result is the value given to \<^verbatim>\<open>setClosestEdge\<close>.\<close>

definition onDrag_example ::
  "int \<Rightarrow> HTMLElement \<Rightarrow> DragData \<Rightarrow> HTMLElement \<Rightarrow> DragData \<Rightarrow> Edge option" where
  "onDrag_example itemIndex thisElement selfData sourceElement sourceData =
     (if sourceElement = thisElement then None else extractClosestEdge selfData)"

section \<open>Facts about the primitives\<close>

lemma findIndex_from_absent: "(\<forall>x\<in>set xs. \<not> p x) \<Longrightarrow> findIndex_from p xs i = - 1"
  by (induction xs arbitrary: i) auto

lemma findIndex_from_present:
  "\<exists>x\<in>set xs. p x \<Longrightarrow> i \<le> findIndex_from p xs i \<and> findIndex_from p xs i < i + int (length xs)"
proof (induction xs arbitrary: i)
  case Nil
  then show ?case by simp
next
  case (Cons x xs)
  show ?case
  proof (cases "p x")
    case True
    then show ?thesis by simp
  next
    case False
    with Cons.prems have "\<exists>y\<in>set xs. p y" by simp
    from Cons.IH [OF this, of "i + 1"] False show ?thesis by simp
  qed
qed

lemma findIndex_negative_iff: "findIndex p xs < 0 \<longleftrightarrow> (\<forall>x\<in>set xs. \<not> p x)"
proof
  assume neg: "findIndex p xs < 0"
  show "\<forall>x\<in>set xs. \<not> p x"
  proof (rule ccontr)
    assume "\<not> (\<forall>x\<in>set xs. \<not> p x)"
    then have "\<exists>x\<in>set xs. p x" by simp
    from findIndex_from_present [OF this, of 0] neg show False
      by (simp add: findIndex_def)
  qed
next
  assume "\<forall>x\<in>set xs. \<not> p x"
  then show "findIndex p xs < 0"
    by (simp add: findIndex_def findIndex_from_absent)
qed

lemma length_removeAt: "i < length xs \<Longrightarrow> length (removeAt i xs) = length xs - 1"
  by (simp add: removeAt_def)

lemma length_insertAt: "length (insertAt i x xs) = Suc (length xs)"
  by (simp add: insertAt_def)

lemma nth_insertAt: "i \<le> length xs \<Longrightarrow> insertAt i x xs ! i = x"
  by (simp add: insertAt_def nth_append)

lemma removeAt_insertAt: "i \<le> length xs \<Longrightarrow> removeAt i (insertAt i x xs) = xs"
  by (simp add: insertAt_def removeAt_def)

lemma insertAt_removeAt: "i < length xs \<Longrightarrow> insertAt i (xs ! i) (removeAt i xs) = xs"
  by (simp add: insertAt_def removeAt_def id_take_nth_drop [symmetric])

lemma reorder_valid:
  assumes "0 \<le> s" "s < int (length xs)" "0 \<le> d" "d < int (length xs)" "s \<noteq> d"
  shows "reorder xs s d = Inr (insertAt (nat d) (xs ! nat s) (removeAt (nat s) xs))"
  using assms by (simp add: reorder_def)

text \<open>The moved list: the same length, the moved element at its destination, and the
  other elements in their old order.\<close>

lemma moved_list_facts:
  assumes "s < length xs" "d < length xs"
  defines "ys \<equiv> insertAt d (xs ! s) (removeAt s xs)"
  shows "length ys = length xs" and "ys ! d = xs ! s" and "removeAt d ys = removeAt s xs"
proof -
  from assms(1) have len: "length (removeAt s xs) = length xs - 1"
    by (rule length_removeAt)
  with assms(1) show "length ys = length xs"
    by (simp add: ys_def length_insertAt)
  from len assms have le: "d \<le> length (removeAt s xs)" by simp
  then show "ys ! d = xs ! s"
    by (simp add: ys_def nth_insertAt)
  from le show "removeAt d ys = removeAt s xs"
    by (simp add: ys_def removeAt_insertAt)
qed

text \<open>Dropping an entry onto itself: the rule gives the entry's own index at either edge.\<close>

lemma getReorderDestinationIndex_self: "getReorderDestinationIndex i e i = i"
  by (simp add: getReorderDestinationIndex_def)

section \<open>The destination index\<close>

text \<open>
  Claim C1. For a source index and a target index within \<open>[0, len)\<close> and either edge, the
  destination index is \<open>base - 1\<close> when the source index is below \<open>base\<close> and \<open>base\<close>
  otherwise, where \<open>base\<close> is the target index, plus one for the bottom edge; and the
  destination index lies within \<open>[0, len)\<close>. The rule is the description's, the helper's
  source being outside the repository; the range is a consequence of the rule.
\<close>

theorem getReorderDestinationIndex_in_range:
  assumes "0 \<le> startIndex" and "startIndex < len"
    and "0 \<le> indexOfTarget" and "indexOfTarget < len"
  shows "getReorderDestinationIndex startIndex e indexOfTarget =
           (if startIndex < indexOfTarget + (if e = Bottom then 1 else 0)
            then indexOfTarget + (if e = Bottom then 1 else 0) - 1
            else indexOfTarget + (if e = Bottom then 1 else 0)) \<and>
         0 \<le> getReorderDestinationIndex startIndex e indexOfTarget \<and>
         getReorderDestinationIndex startIndex e indexOfTarget < len"
  using assms by (cases e) (auto simp: getReorderDestinationIndex_def Let_def)

text \<open>Dragging the first of three entries onto the bottom edge of the last one.\<close>

theorem getReorderDestinationIndex_in_range_witness:
  "(0::int) \<le> 0 \<and> (0::int) < 3 \<and> (0::int) \<le> 2 \<and> (2::int) < 3 \<and>
   getReorderDestinationIndex 0 Bottom 2 = 2 \<and>
   0 \<le> getReorderDestinationIndex 0 Bottom 2 \<and> getReorderDestinationIndex 0 Bottom 2 < 3"
  using getReorderDestinationIndex_in_range [of 0 3 2 Bottom] by simp

section \<open>The state update of \<^verbatim>\<open>reorderItem\<close>\<close>

text \<open>
  The updater has no index check of its own: it fails exactly when the helper it calls
  fails, and otherwise it returns the helper's list with a move record.
\<close>

lemma reorderUpdate_fails_iff:
  "(\<exists>e. reorderUpdate reord s d listState = Inl e) \<longleftrightarrow> (\<exists>e. reord (items listState) s d = Inl e)"
  by (cases "reord (items listState) s d") (simp_all add: reorderUpdate_def)

lemma reorderUpdate_record:
  assumes "reord (items listState) s d = Inr ys"
  shows "reorderUpdate reord s d listState =
           Inr \<lparr>items = ys,
                lastCardMoved = Some \<lparr>moved_item = js_index (items listState) s,
                                      previousIndex = s, currentIndex = d,
                                      numberOfItems = int (length (items listState))\<rparr>\<rparr>"
  using assms by (simp add: reorderUpdate_def)

text \<open>
  Claim C2, as amended. For every list and every pair of distinct indices \<open>s\<close> and \<open>d\<close>
  within it, the state update produces, as one new state, the list with the item of
  position \<open>s\<close> removed and reinserted at position \<open>d\<close> (the same length, the item at
  \<open>d\<close>, the other items in their old order) together with a move record whose item is
  the item that was at \<open>s\<close>. In the full controller the record also holds the previous
  index \<open>s\<close>, the current index \<open>d\<close> and the length of the list at the time of the
  move; in the reduced example the record holds the item only. The move of the list is
  the description's, the helper's source being outside the repository.
\<close>

theorem reorderUpdate_moves_item_and_records:
  assumes "0 \<le> s" and "s < int (length xs)" and "0 \<le> d" and "d < int (length xs)"
    and "s \<noteq> d"
  shows "\<exists>ys. length ys = length xs \<and> ys ! nat d = xs ! nat s \<and>
           removeAt (nat d) ys = removeAt (nat s) xs \<and>
           reorderUpdate reorder s d \<lparr>items = xs, lastCardMoved = before\<rparr> =
             Inr \<lparr>items = ys,
                  lastCardMoved = Some \<lparr>moved_item = Some (xs ! nat s), previousIndex = s,
                                        currentIndex = d, numberOfItems = int (length xs)\<rparr>\<rparr> \<and>
           reorderUpdate_example reorder s d \<lparr>ex_items = xs, lastMoved = before'\<rparr> =
             Inr \<lparr>ex_items = ys, lastMoved = Some \<lparr>lm_item = Some (xs ! nat s)\<rparr>\<rparr>"
proof -
  define ys where "ys = insertAt (nat d) (xs ! nat s) (removeAt (nat s) xs)"
  from assms have sn: "nat s < length xs" and dn: "nat d < length xs" by simp_all
  have mv: "reorder xs s d = Inr ys"
    unfolding ys_def using assms by (rule reorder_valid)
  have len: "length ys = length xs" and at: "ys ! nat d = xs ! nat s"
    and rest: "removeAt (nat d) ys = removeAt (nat s) xs"
    unfolding ys_def using moved_list_facts [OF sn dn] by simp_all
  from assms have rd: "js_index xs s = Some (xs ! nat s)"
    by (simp add: js_index_def)
  have full: "reorderUpdate reorder s d \<lparr>items = xs, lastCardMoved = before\<rparr> =
      Inr \<lparr>items = ys,
           lastCardMoved = Some \<lparr>moved_item = Some (xs ! nat s), previousIndex = s,
                                 currentIndex = d, numberOfItems = int (length xs)\<rparr>\<rparr>"
    by (simp add: reorderUpdate_def mv rd)
  have reduced: "reorderUpdate_example reorder s d \<lparr>ex_items = xs, lastMoved = before'\<rparr> =
      Inr \<lparr>ex_items = ys, lastMoved = Some \<lparr>lm_item = Some (xs ! nat s)\<rparr>\<rparr>"
    by (simp add: reorderUpdate_example_def mv rd)
  from len at rest full reduced show ?thesis by blast
qed

text \<open>Scenario A: the list A, B, C with A dragged to the last position.\<close>

theorem reorderUpdate_moves_item_and_records_witness:
  "reorderUpdate reorder 0 2
     \<lparr>items = [\<lparr>item_id = ''a'', label = ''A''\<rparr>, \<lparr>item_id = ''b'', label = ''B''\<rparr>,
               \<lparr>item_id = ''c'', label = ''C''\<rparr>],
      lastCardMoved = None\<rparr> =
   Inr \<lparr>items = [\<lparr>item_id = ''b'', label = ''B''\<rparr>, \<lparr>item_id = ''c'', label = ''C''\<rparr>,
                 \<lparr>item_id = ''a'', label = ''A''\<rparr>],
        lastCardMoved = Some \<lparr>moved_item = Some \<lparr>item_id = ''a'', label = ''A''\<rparr>,
                              previousIndex = 0, currentIndex = 2, numberOfItems = 3\<rparr>\<rparr>"
proof -
  let ?xs = "[\<lparr>item_id = ''a'', label = ''A''\<rparr>, \<lparr>item_id = ''b'', label = ''B''\<rparr>,
              \<lparr>item_id = ''c'', label = ''C''\<rparr>]"
  have "(0::int) \<le> 0" and "(0::int) < int (length ?xs)" and "(0::int) \<le> 2"
    and "(2::int) < int (length ?xs)" and "(0::int) \<noteq> 2"
    by simp_all
  from reorderUpdate_moves_item_and_records [OF this, of None None]
  obtain ys where "removeAt (nat 2) ys = removeAt (nat 0) ?xs"
    and "ys ! nat 2 = ?xs ! nat 0"
    and "reorderUpdate reorder 0 2 \<lparr>items = ?xs, lastCardMoved = None\<rparr> =
       Inr \<lparr>items = ys,
            lastCardMoved = Some \<lparr>moved_item = Some (?xs ! nat 0), previousIndex = 0,
                                  currentIndex = 2, numberOfItems = int (length ?xs)\<rparr>\<rparr>"
    by blast
  then show ?thesis
    by (simp add: reorderUpdate_def reorder_def insertAt_def removeAt_def js_index_def)
qed

text \<open>
  The claim as first stated gives the move record of every state update a previous index,
  a current index and a total count. In the reduced example the record of moving A from
  position 0 of A, B, C and the record of moving A from position 1 of B, A, C are the same
  value: the record holds the item and nothing of the indices.
\<close>

theorem reorderUpdate_example_record_has_no_indices:
  "map_sum id lastMoved
     (reorderUpdate_example reorder 0 2
        \<lparr>ex_items = [\<lparr>item_id = ''a'', label = ''A''\<rparr>, \<lparr>item_id = ''b'', label = ''B''\<rparr>,
                     \<lparr>item_id = ''c'', label = ''C''\<rparr>],
         lastMoved = None\<rparr>) =
   Inr (Some \<lparr>lm_item = Some \<lparr>item_id = ''a'', label = ''A''\<rparr>\<rparr>) \<and>
   map_sum id lastMoved
     (reorderUpdate_example reorder 1 2
        \<lparr>ex_items = [\<lparr>item_id = ''b'', label = ''B''\<rparr>, \<lparr>item_id = ''a'', label = ''A''\<rparr>,
                     \<lparr>item_id = ''c'', label = ''C''\<rparr>],
         lastMoved = None\<rparr>) =
   Inr (Some \<lparr>lm_item = Some \<lparr>item_id = ''a'', label = ''A''\<rparr>\<rparr>)"
  by (simp add: reorderUpdate_example_def reorder_def insertAt_def removeAt_def js_index_def)

section \<open>Skipping the update\<close>

text \<open>
  Claim C3. Whenever the destination index that the helper computes equals the start
  index, \<^verbatim>\<open>reorderItem\<close> returns without calling the state setter: no updater is
  produced, so the list and the last move record stay as they were and nothing that
  depends on a new move record runs. This holds for every helper, in both versions of
  the component.
\<close>

theorem reorderItem_skips_when_destination_is_start:
  assumes "destinationIndex startIndex closestEdgeOfTarget indexOfTarget Vertical = startIndex"
  shows "reorderItem destinationIndex reord startIndex indexOfTarget closestEdgeOfTarget = None \<and>
         commit (reorderItem destinationIndex reord startIndex indexOfTarget closestEdgeOfTarget)
           listState = Inr listState \<and>
         reorderItem_example destinationIndex reord startIndex indexOfTarget
           closestEdgeOfTarget = None \<and>
         commit (reorderItem_example destinationIndex reord startIndex indexOfTarget
           closestEdgeOfTarget) exampleState = Inr exampleState"
  using assms by (simp add: reorderItem_def reorderItem_example_def commit_def)

text \<open>Scenario C: an entry dropped onto itself, here at its top edge, with the
  destination rule of the description (a null edge read as bottom).\<close>

theorem reorderItem_skips_when_destination_is_start_witness:
  "(\<lambda>s e t a. getReorderDestinationIndex s (case e of None \<Rightarrow> Bottom | Some b \<Rightarrow> b) t)
      1 (Some Top) 1 Vertical = 1 \<and>
   reorderItem (\<lambda>s e t a. getReorderDestinationIndex s (case e of None \<Rightarrow> Bottom | Some b \<Rightarrow> b) t)
      reorder 1 1 (Some Top) = None \<and>
   commit (reorderItem
       (\<lambda>s e t a. getReorderDestinationIndex s (case e of None \<Rightarrow> Bottom | Some b \<Rightarrow> b) t)
       reorder 1 1 (Some Top))
     \<lparr>items = [\<lparr>item_id = ''task-1'', label = ''A''\<rparr>, \<lparr>item_id = ''task-2'', label = ''B''\<rparr>],
      lastCardMoved = None\<rparr> =
   Inr \<lparr>items = [\<lparr>item_id = ''task-1'', label = ''A''\<rparr>, \<lparr>item_id = ''task-2'', label = ''B''\<rparr>],
        lastCardMoved = None\<rparr>"
proof -
  let ?f = "\<lambda>s e t a. getReorderDestinationIndex s (case e of None \<Rightarrow> Bottom | Some b \<Rightarrow> b) t"
  have h: "?f 1 (Some Top) 1 Vertical = 1"
    by (simp add: getReorderDestinationIndex_def)
  from reorderItem_skips_when_destination_is_start [of ?f 1 "Some Top" 1, OF h] h
  show ?thesis by blast
qed

section \<open>A drop on a target that is no longer in the list\<close>

text \<open>
  Claim C4. When the id of the drop target's item occurs nowhere in the current list,
  the drop handler returns before it calls \<^verbatim>\<open>reorderItem\<close>: no updater is produced
  whatever the two helpers are, the state stays as it was, and no error is raised.
\<close>

theorem onDrop_ignores_unresolved_target:
  assumes "\<forall>it\<in>set currentItems. item_id it \<noteq> item_id (item targetItem)"
  shows "onDrop destinationIndex reord currentItems (ItemPayload targetItem e # others)
           sourceData = None \<and>
         commit (onDrop destinationIndex reord currentItems (ItemPayload targetItem e # others)
           sourceData) listState = Inr listState \<and>
         onDrop_example destinationIndex reord currentItems (ItemPayload targetItem e # others)
           sourceData = None \<and>
         commit (onDrop_example destinationIndex reord currentItems
           (ItemPayload targetItem e # others) sourceData) exampleState = Inr exampleState"
proof -
  from assms
  have "findIndex (\<lambda>it. item_id it = item_id (item targetItem)) currentItems < 0"
    by (simp add: findIndex_negative_iff)
  then show ?thesis
    by (cases sourceData) (simp_all add: onDrop_def onDrop_example_def commit_def Let_def)
qed

text \<open>Scenario D: the target task-3 has been removed from the list task-1, task-2.\<close>

theorem onDrop_ignores_unresolved_target_witness:
  "onDrop (\<lambda>s e t a. t) reorder
     [\<lparr>item_id = ''task-1'', label = ''A''\<rparr>, \<lparr>item_id = ''task-2'', label = ''B''\<rparr>]
     [ItemPayload \<lparr>item = \<lparr>item_id = ''task-3'', label = ''C''\<rparr>, index = 2, instanceId = 7\<rparr>
        (Some Top)]
     (ItemPayload \<lparr>item = \<lparr>item_id = ''task-1'', label = ''A''\<rparr>, index = 0, instanceId = 7\<rparr>
        None) = None"
  using onDrop_ignores_unresolved_target
    [of "[\<lparr>item_id = ''task-1'', label = ''A''\<rparr>, \<lparr>item_id = ''task-2'', label = ''B''\<rparr>]"
        "\<lparr>item = \<lparr>item_id = ''task-3'', label = ''C''\<rparr>, index = 2, instanceId = 7\<rparr>"
        "\<lambda>s e t a. t" reorder "Some Top" "[]"
        "ItemPayload \<lparr>item = \<lparr>item_id = ''task-1'', label = ''A''\<rparr>, index = 0, instanceId = 7\<rparr>
           None"]
  by simp

section \<open>Moving an item and moving it back\<close>

text \<open>
  Claim C6. For every list and every pair of distinct indices \<open>s\<close> and \<open>d\<close> within the
  list, the move from \<open>s\<close> to \<open>d\<close> succeeds, and the move from \<open>d\<close> to \<open>s\<close> applied to
  its result gives the original list back, element for element. The move is the
  description's, the helper's source being outside the repository.
\<close>

theorem reorder_round_trip:
  assumes "0 \<le> s" and "s < int (length xs)" and "0 \<le> d" and "d < int (length xs)"
    and "s \<noteq> d"
  shows "\<exists>ys. reorder xs s d = Inr ys \<and> reorder ys d s = Inr xs"
proof -
  define ys where "ys = insertAt (nat d) (xs ! nat s) (removeAt (nat s) xs)"
  from assms have sn: "nat s < length xs" and dn: "nat d < length xs" by simp_all
  have fwd: "reorder xs s d = Inr ys"
    unfolding ys_def using assms by (rule reorder_valid)
  have len: "length ys = length xs" and at: "ys ! nat d = xs ! nat s"
    and rest: "removeAt (nat d) ys = removeAt (nat s) xs"
    unfolding ys_def using moved_list_facts [OF sn dn] by simp_all
  from assms len have "reorder ys d s = Inr (insertAt (nat s) (ys ! nat d) (removeAt (nat d) ys))"
    by (intro reorder_valid) simp_all
  also have "\<dots> = Inr xs"
    using sn by (simp add: at rest insertAt_removeAt)
  finally show ?thesis using fwd by blast
qed

text \<open>The list 10, 20, 30: the first element moved to the end, and back.\<close>

theorem reorder_round_trip_witness:
  "(0::int) \<le> 0 \<and> (0::int) < int (length [10, 20, 30 :: nat]) \<and> (0::int) \<le> 2 \<and>
   (2::int) < int (length [10, 20, 30 :: nat]) \<and> (0::int) \<noteq> 2 \<and>
   reorder [10, 20, 30 :: nat] 0 2 = Inr [20, 30, 10] \<and>
   reorder [20, 30, 10 :: nat] 2 0 = Inr [10, 20, 30] \<and>
   (\<exists>ys. reorder [10, 20, 30 :: nat] 0 2 = Inr ys \<and> reorder ys 2 0 = Inr [10, 20, 30])"
  using reorder_round_trip [of 0 "[10, 20, 30 :: nat]" 2]
  by (simp add: reorder_def insertAt_def removeAt_def)

section \<open>The registry\<close>

text \<open>
  Claim C7, as amended. \<^verbatim>\<open>register\<close> overwrites whatever was stored under the id (the
  last registration wins) and leaves every other id alone. The \<^verbatim>\<open>unregister\<close> it
  returns deletes whatever is stored under that id in the registry it is later applied to:
  afterwards the id is not found, every other id is as before, and applied to a registry
  without the id it changes nothing. In particular the id is not found after a
  registration followed by its own \<^verbatim>\<open>unregister\<close>.
\<close>

theorem register_and_unregister_by_id:
  "getElement anId (fst (register \<lparr>itemId = anId, element = h\<rparr> reg)) = Some h \<and>
   (other \<noteq> anId \<longrightarrow>
      getElement other (fst (register \<lparr>itemId = anId, element = h\<rparr> reg)) = getElement other reg) \<and>
   getElement anId (snd (register \<lparr>itemId = anId, element = h\<rparr> reg) later) = None \<and>
   (other \<noteq> anId \<longrightarrow>
      getElement other (snd (register \<lparr>itemId = anId, element = h\<rparr> reg) later) =
        getElement other later) \<and>
   (getElement anId later = None \<longrightarrow>
      snd (register \<lparr>itemId = anId, element = h\<rparr> reg) later = later) \<and>
   getElement anId
     (snd (register \<lparr>itemId = anId, element = h\<rparr> reg)
        (fst (register \<lparr>itemId = anId, element = h\<rparr> reg))) = None"
  by (auto simp: register_def unregister_def getElement_def fun_upd_idem_iff)

theorem register_and_unregister_by_id_witness:
  "getElement ''a'' (fst (register \<lparr>itemId = ''a'', element = 2\<rparr>
      (fst (register \<lparr>itemId = ''a'', element = 1\<rparr> getItemRegistry)))) = Some 2 \<and>
   ''b'' \<noteq> ''a'' \<and>
   getElement ''b'' (snd (register \<lparr>itemId = ''a'', element = 1\<rparr> getItemRegistry)
      (fst (register \<lparr>itemId = ''b'', element = 5\<rparr> getItemRegistry))) = Some 5 \<and>
   getElement ''a'' getItemRegistry = None \<and>
   snd (register \<lparr>itemId = ''a'', element = 1\<rparr> getItemRegistry) getItemRegistry =
     getItemRegistry"
proof -
  have ne: "''b'' \<noteq> ''a''" by simp
  have absent: "getElement ''a'' getItemRegistry = None"
    by (simp add: getElement_def getItemRegistry_def)
  have b: "getElement ''b'' (fst (register \<lparr>itemId = ''b'', element = 5\<rparr> getItemRegistry)) =
      Some 5"
    by (simp add: getElement_def register_def)
  note t1 = register_and_unregister_by_id
    [of "''a''" 2 "fst (register \<lparr>itemId = ''a'', element = 1\<rparr> getItemRegistry)"]
  note t2 = register_and_unregister_by_id
    [of "''a''" 1 getItemRegistry "''b''"
        "fst (register \<lparr>itemId = ''b'', element = 5\<rparr> getItemRegistry)"]
  note t3 = register_and_unregister_by_id [of "''a''" 1 getItemRegistry _ getItemRegistry]
  from t1 have c1: "getElement ''a'' (fst (register \<lparr>itemId = ''a'', element = 2\<rparr>
      (fst (register \<lparr>itemId = ''a'', element = 1\<rparr> getItemRegistry)))) = Some 2"
    by blast
  from t2 ne b have c2: "getElement ''b''
      (snd (register \<lparr>itemId = ''a'', element = 1\<rparr> getItemRegistry)
        (fst (register \<lparr>itemId = ''b'', element = 5\<rparr> getItemRegistry))) = Some 5"
    by simp
  from t3 absent
  have c3: "snd (register \<lparr>itemId = ''a'', element = 1\<rparr> getItemRegistry) getItemRegistry =
      getItemRegistry"
    by blast
  from c1 ne c2 absent c3 show ?thesis by blast
qed

text \<open>
  The claim as first stated lets a stale \<^verbatim>\<open>unregister\<close> have no effect on a later
  registration for the same id. The closure deletes by id: after the element 1 and then
  the element 2 were registered under one id, the first registration's \<^verbatim>\<open>unregister\<close>
  removes the element 2.
\<close>

theorem stale_unregister_removes_later_registration:
  "getElement ''a''
     (fst (register \<lparr>itemId = ''a'', element = 2\<rparr>
        (fst (register \<lparr>itemId = ''a'', element = 1\<rparr> getItemRegistry)))) = Some 2 \<and>
   getElement ''a''
     (snd (register \<lparr>itemId = ''a'', element = 1\<rparr> getItemRegistry)
        (fst (register \<lparr>itemId = ''a'', element = 2\<rparr>
           (fst (register \<lparr>itemId = ''a'', element = 1\<rparr> getItemRegistry))))) = None"
  by (simp add: register_def unregister_def getElement_def getItemRegistry_def)

section \<open>The drop indicator next to the dragged entry\<close>

text \<open>
  Claim C8, as amended. In the full controller a drag-over event never leaves the entry
  just before the source with an indicator at its bottom edge, and never leaves the entry
  just after the source with an indicator at its top edge, whatever the two elements are.
  The reduced example has no such filter: an entry whose element is not the source's
  element takes the closest edge reported for it. Nothing is said of the source's own
  entry.
\<close>

theorem onDrag_indicator_filter:
  "(dataIndex sourceData = Some sourceIndex \<and> itemIndex = sourceIndex - 1 \<longrightarrow>
      onDrag itemIndex thisElement selfData sourceElement sourceData \<noteq> Inr (Some Bottom)) \<and>
   (dataIndex sourceData = Some sourceIndex \<and> itemIndex = sourceIndex + 1 \<longrightarrow>
      onDrag itemIndex thisElement selfData sourceElement sourceData \<noteq> Inr (Some Top)) \<and>
   (sourceElement \<noteq> thisElement \<longrightarrow>
      onDrag_example itemIndex thisElement selfData sourceElement sourceData =
        extractClosestEdge selfData)"
  by (auto simp: onDrag_def onDrag_example_def Let_def)

text \<open>
  Three entries A, B, C of indices 0, 1, 2 with the containers 10, 11, 12; B is dragged
  by its handle 21. In the full controller A hides a bottom edge and C hides a top edge;
  in the reduced example A shows the top edge reported for it.
\<close>

theorem onDrag_indicator_filter_witness:
  "dataIndex (ItemPayload
     \<lparr>item = \<lparr>item_id = ''b'', label = ''B''\<rparr>, index = 1, instanceId = 7\<rparr> None) = Some 1 \<and>
   (0::int) = 1 - 1 \<and>
   onDrag 0 10
     (ItemPayload \<lparr>item = \<lparr>item_id = ''a'', label = ''A''\<rparr>, index = 0, instanceId = 7\<rparr>
        (Some Bottom))
     21 (ItemPayload \<lparr>item = \<lparr>item_id = ''b'', label = ''B''\<rparr>, index = 1, instanceId = 7\<rparr> None)
     \<noteq> Inr (Some Bottom) \<and>
   (2::int) = 1 + 1 \<and>
   onDrag 2 12
     (ItemPayload \<lparr>item = \<lparr>item_id = ''c'', label = ''C''\<rparr>, index = 2, instanceId = 7\<rparr>
        (Some Top))
     21 (ItemPayload \<lparr>item = \<lparr>item_id = ''b'', label = ''B''\<rparr>, index = 1, instanceId = 7\<rparr> None)
     \<noteq> Inr (Some Top) \<and>
   (21::nat) \<noteq> 10 \<and>
   onDrag_example 0 10
     (ItemPayload \<lparr>item = \<lparr>item_id = ''a'', label = ''A''\<rparr>, index = 0, instanceId = 7\<rparr>
        (Some Top))
     21 (ItemPayload \<lparr>item = \<lparr>item_id = ''b'', label = ''B''\<rparr>, index = 1, instanceId = 7\<rparr> None)
     = Some Top"
proof -
  let ?a = "\<lparr>item = \<lparr>item_id = ''a'', label = ''A''\<rparr>, index = 0, instanceId = 7\<rparr>"
  let ?b = "\<lparr>item = \<lparr>item_id = ''b'', label = ''B''\<rparr>, index = 1, instanceId = 7\<rparr>"
  let ?c = "\<lparr>item = \<lparr>item_id = ''c'', label = ''C''\<rparr>, index = 2, instanceId = 7\<rparr>"
  have src: "dataIndex (ItemPayload ?b None) = Some 1" by simp
  have before: "(0::int) = 1 - 1" and after: "(2::int) = 1 + 1" and ne: "(21::nat) \<noteq> 10"
    by simp_all
  from onDrag_indicator_filter
    [of "ItemPayload ?b None" 1 0 10 "ItemPayload ?a (Some Bottom)" 21] src before
  have hidden_bottom:
    "onDrag 0 10 (ItemPayload ?a (Some Bottom)) 21 (ItemPayload ?b None) \<noteq> Inr (Some Bottom)"
    by blast
  from onDrag_indicator_filter
    [of "ItemPayload ?b None" 1 2 12 "ItemPayload ?c (Some Top)" 21] src after
  have hidden_top:
    "onDrag 2 12 (ItemPayload ?c (Some Top)) 21 (ItemPayload ?b None) \<noteq> Inr (Some Top)"
    by blast
  from onDrag_indicator_filter
    [of "ItemPayload ?b None" 1 0 10 "ItemPayload ?a (Some Top)" 21] ne
  have reduced:
    "onDrag_example 0 10 (ItemPayload ?a (Some Top)) 21 (ItemPayload ?b None) = Some Top"
    by simp
  from src before hidden_bottom after hidden_top ne reduced show ?thesis by blast
qed

text \<open>
  The claim as first stated covers every drag-over event. In the reduced example the
  entry of index 0, dragged over by the source of index 1 with bottom as its closest
  edge, shows the indicator at its bottom edge.
\<close>

theorem onDrag_example_shows_adjacent_indicator:
  "onDrag_example 0 10
     (ItemPayload \<lparr>item = \<lparr>item_id = ''a'', label = ''A''\<rparr>, index = 0, instanceId = 7\<rparr>
        (Some Bottom))
     21 (ItemPayload \<lparr>item = \<lparr>item_id = ''b'', label = ''B''\<rparr>, index = 1, instanceId = 7\<rparr> None)
     = Some Bottom"
  by (simp add: onDrag_example_def)

section \<open>Sources of another instance, and malformed sources\<close>

text \<open>
  Claim C10. A drop whose source data fails the shape check, or carries the identifier
  of another instance, is refused by \<^verbatim>\<open>canMonitor\<close> and by \<^verbatim>\<open>canDrop\<close>; the monitor
  then produces no updater, so the list of this instance stays as it was. For a source
  that fails the shape check the drop handler's own guard gives the same result without
  the monitor.
\<close>

theorem foreign_or_malformed_source_never_reorders:
  assumes "asItemData sourceData = None \<or>
           (\<exists>d. asItemData sourceData = Some d \<and> instanceId d \<noteq> instId)"
  shows "canMonitor instId sourceData = False \<and> canDrop instId sourceData = False \<and>
         monitorForElements (canMonitor instId) (onDrop destinationIndex reord currentItems)
           dropTargets sourceData = None \<and>
         commit (monitorForElements (canMonitor instId)
           (onDrop destinationIndex reord currentItems) dropTargets sourceData) listState =
           Inr listState \<and>
         monitorForElements (canMonitor instId)
           (onDrop_example destinationIndex reord currentItems) dropTargets sourceData = None \<and>
         (asItemData sourceData = None \<longrightarrow>
            onDrop destinationIndex reord currentItems dropTargets sourceData = None \<and>
            onDrop_example destinationIndex reord currentItems dropTargets sourceData = None)"
proof -
  from assms have no: "canMonitor instId sourceData = False"
    by (auto simp: canMonitor_def)
  from assms have nd: "canDrop instId sourceData = False"
    by (auto simp: canDrop_def)
  have guard: "asItemData sourceData = None \<longrightarrow>
      onDrop destinationIndex reord currentItems dropTargets sourceData = None \<and>
      onDrop_example destinationIndex reord currentItems dropTargets sourceData = None"
    by (simp add: onDrop_def onDrop_example_def split: list.splits)
  from no nd guard show ?thesis
    by (simp add: monitorForElements_def commit_def)
qed

text \<open>A well-formed source of instance 8 dropped in the list of instance 7, and a
  source that is no item data at all.\<close>

theorem foreign_or_malformed_source_never_reorders_witness:
  "asItemData (ItemPayload \<lparr>item = \<lparr>item_id = ''task-1'', label = ''A''\<rparr>, index = 0,
      instanceId = 8\<rparr> None) =
     Some \<lparr>item = \<lparr>item_id = ''task-1'', label = ''A''\<rparr>, index = 0, instanceId = 8\<rparr> \<and>
   instanceId \<lparr>item = \<lparr>item_id = ''task-1'', label = ''A''\<rparr>, index = 0, instanceId = 8\<rparr>
     \<noteq> (7::nat) \<and>
   monitorForElements (canMonitor 7)
     (onDrop (\<lambda>s e t a. t) reorder
        [\<lparr>item_id = ''task-1'', label = ''A''\<rparr>, \<lparr>item_id = ''task-2'', label = ''B''\<rparr>])
     [ItemPayload \<lparr>item = \<lparr>item_id = ''task-2'', label = ''B''\<rparr>, index = 1, instanceId = 7\<rparr>
        (Some Bottom)]
     (ItemPayload \<lparr>item = \<lparr>item_id = ''task-1'', label = ''A''\<rparr>, index = 0, instanceId = 8\<rparr>
        None) = None \<and>
   onDrop (\<lambda>s e t a. t) reorder
     [\<lparr>item_id = ''task-1'', label = ''A''\<rparr>, \<lparr>item_id = ''task-2'', label = ''B''\<rparr>]
     [ItemPayload \<lparr>item = \<lparr>item_id = ''task-2'', label = ''B''\<rparr>, index = 1, instanceId = 7\<rparr>
        (Some Bottom)]
     (OtherPayload None) = None"
proof -
  let ?src = "\<lparr>item = \<lparr>item_id = ''task-1'', label = ''A''\<rparr>, index = 0, instanceId = 8\<rparr>"
  let ?its = "[\<lparr>item_id = ''task-1'', label = ''A''\<rparr>, \<lparr>item_id = ''task-2'', label = ''B''\<rparr>]"
  let ?tgts = "[ItemPayload
      \<lparr>item = \<lparr>item_id = ''task-2'', label = ''B''\<rparr>, index = 1, instanceId = 7\<rparr> (Some Bottom)]"
  have shape: "asItemData (ItemPayload ?src None) = Some ?src" by simp
  have foreign: "instanceId ?src \<noteq> (7::nat)" by simp
  from shape foreign
  have h1: "asItemData (ItemPayload ?src None) = None \<or>
      (\<exists>d. asItemData (ItemPayload ?src None) = Some d \<and> instanceId d \<noteq> 7)"
    by blast
  have h2: "asItemData (OtherPayload None) = None \<or>
      (\<exists>d. asItemData (OtherPayload None) = Some d \<and> instanceId d \<noteq> 7)"
    by simp
  from foreign_or_malformed_source_never_reorders [OF h1, of "\<lambda>s e t a. t" reorder ?its ?tgts]
  have c1: "monitorForElements (canMonitor 7) (onDrop (\<lambda>s e t a. t) reorder ?its) ?tgts
      (ItemPayload ?src None) = None"
    by blast
  from foreign_or_malformed_source_never_reorders [OF h2, of "\<lambda>s e t a. t" reorder ?its ?tgts]
  have c2: "onDrop (\<lambda>s e t a. t) reorder ?its ?tgts (OtherPayload None) = None"
    by simp
  from shape foreign c1 c2 show ?thesis by blast
qed

end
